theory Spec2Isabelle
  imports Complex_Main "HOL-Library.Sublist"
begin

section \<open>Data model\<close>

text \<open>
  The shared cuDNN convolution layer of ATen (\<^verbatim>\<open>ATen/native/cudnn/ConvShared.cpp\<close>)
  validates the geometry of a convolution, allocates the result and hands the
  pre-allocated buffers to a raw backend primitive.  The embedding keeps that
  division: tensors are records of their geometry, the dispatchers are functions
  that return the list of backend calls they issued together with either an
  error or their result.

  Sizes and the entries of an \<^verbatim>\<open>IntArrayRef\<close> are \<^verbatim>\<open>int64_t\<close> in the
  source.  They are modelled as \<^typ>\<open>int\<close>; signed overflow is undefined in C++
  and is not modelled.  The one place where the source narrows an
  \<^verbatim>\<open>int64_t\<close> is written out (\<open>int_of_int64\<close>).
\<close>

datatype error =
    InvalidArgument string
  | IndexError string
  | BackendError string
  | UndefinedBehaviour string

datatype ScalarType = Half | Float | Double | BFloat16 | Long

datatype Device = CPU | CUDA nat

datatype MemoryFormat = Contiguous | ChannelsLast | ChannelsLast3d

text \<open>
  Modelled from the spec: the value of an element of a floating-point tensor (the
  tensor value type is not in this file): a finite number, an infinity or NaN.
  Finite results are kept exact; rounding is not modelled.
\<close>

datatype float_value = Finite real | PosInf | NegInf | NaN

instantiation float_value :: "{zero, one}"
begin

definition zero_float_value :: float_value where
  "zero_float_value = Finite 0"

definition one_float_value :: float_value where
  "one_float_value = Finite 1"

instance ..

end


text \<open>
  Modelled from the spec: addition of element values, as floating-point arithmetic
  has it: NaN is absorbing, opposite infinities add to NaN, an infinity absorbs
  every finite value.
\<close>

fun fadd :: "float_value \<Rightarrow> float_value \<Rightarrow> float_value" where
  "fadd NaN _ = NaN"
| "fadd _ NaN = NaN"
| "fadd PosInf NegInf = NaN"
| "fadd NegInf PosInf = NaN"
| "fadd PosInf _ = PosInf"
| "fadd _ PosInf = PosInf"
| "fadd NegInf _ = NegInf"
| "fadd _ NegInf = NegInf"
| "fadd (Finite a) (Finite b) = Finite (a + b)"

text \<open>
  Modelled from the spec: multiplication of element values, as floating-point
  arithmetic has it: NaN is absorbing, zero times an infinity is NaN, and an
  infinity times any other value is the infinity of the product's sign.
\<close>

definition signed_inf :: "bool \<Rightarrow> float_value" where
  "signed_inf positive = (if positive then PosInf else NegInf)"

fun fmul :: "float_value \<Rightarrow> float_value \<Rightarrow> float_value" where
  "fmul NaN _ = NaN"
| "fmul _ NaN = NaN"
| "fmul (Finite a) (Finite b) = Finite (a * b)"
| "fmul (Finite a) PosInf = (if a = 0 then NaN else signed_inf (0 < a))"
| "fmul (Finite a) NegInf = (if a = 0 then NaN else signed_inf (a < 0))"
| "fmul PosInf (Finite b) = (if b = 0 then NaN else signed_inf (0 < b))"
| "fmul NegInf (Finite b) = (if b = 0 then NaN else signed_inf (b < 0))"
| "fmul PosInf PosInf = PosInf"
| "fmul NegInf NegInf = PosInf"
| "fmul PosInf NegInf = NegInf"
| "fmul NegInf PosInf = NegInf"

text \<open>
  Modelled from the spec: what a buffer holds (tensor storage belongs to the
  Allocator and is not in this file).  A buffer that was allocated and never
  written is \<open>Uninitialized\<close>.
\<close>

datatype contents = Uninitialized | Values "float_value list"

text \<open>
  Modelled from the spec: the tensor value type (\<^verbatim>\<open>ATen/core/Tensor.h\<close>, not in this
  file) with what the spec says this layer consumes of it: rank and sizes, dtype,
  device, layout hint, and its values.
\<close>

record Tensor =
  sizes :: "int list"
  scalar_type :: ScalarType
  device :: Device
  memory_format :: MemoryFormat
  data :: contents

text \<open>
  Modelled from the spec: \<^verbatim>\<open>TensorArg\<close> (\<^verbatim>\<open>ATen/TensorUtils.h\<close>, not in this file), the
  checked argument: a tensor with the name and position used in diagnostics.
\<close>

record TensorArg =
  tensor :: Tensor
  name :: string
  pos :: nat

type_synonym CheckedFrom = string

text \<open>
  Modelled from the spec: \<^verbatim>\<open>Tensor::dim\<close>, the rank of a tensor.
\<close>

definition dim :: "Tensor \<Rightarrow> nat" where
  "dim t = length (sizes t)"

text \<open>
  Modelled from the spec: \<^verbatim>\<open>Tensor::numel\<close>, the number of elements, the product of
  the sizes.
\<close>

definition numel :: "Tensor \<Rightarrow> int" where
  "numel t = prod_list (sizes t)"

text \<open>
  Modelled from the spec: \<^verbatim>\<open>Tensor::suggest_memory_format\<close>, the layout hint of an
  operand, which the tensor record carries.
\<close>

definition suggest_memory_format :: "Tensor \<Rightarrow> MemoryFormat" where
  "suggest_memory_format t = memory_format t"

section \<open>Printing numbers\<close>

text \<open>Decimal printing, as the stream insertion of an integer does.\<close>

definition digit :: "nat \<Rightarrow> char" where
  "digit d = ''0123456789'' ! d"

fun string_of_nat :: "nat \<Rightarrow> string" where
  "string_of_nat n =
     (if 10 \<le> n then string_of_nat (n div 10) @ [digit (n mod 10)] else [digit n])"

declare string_of_nat.simps [simp del]

definition string_of_int :: "int \<Rightarrow> string" where
  "string_of_int i = (if i < 0 then CHR ''-'' # string_of_nat (nat (- i)) else string_of_nat (nat i))"

section \<open>Checking\<close>

text \<open>
  The implicit conversion of an \<^verbatim>\<open>int64_t\<close> to \<^verbatim>\<open>int\<close> (32 bits, two's
  complement): the value is reduced modulo \<open>2 ^ 32\<close> into the range of \<^verbatim>\<open>int\<close>.
\<close>

definition int_of_int64 :: "int \<Rightarrow> int" where
  "int_of_int64 x = (x + 2147483648) mod 4294967296 - 2147483648"

text \<open>
  \<open>check_args\<close>, used on pad, stride and dilation.  The two \<open>TORCH_CHECK\<close>s bound
  the length from above and from below; the negative entries are then counted with
  a predicate whose parameter is an \<^verbatim>\<open>int\<close>, so each entry is narrowed before
  the comparison.  The message of the third failure prints all entries but the
  last through an \<^verbatim>\<open>ostream_iterator<int>\<close> and the last one as it is.
\<close>

definition while_checking :: "string \<Rightarrow> CheckedFrom \<Rightarrow> string" where
  "while_checking msg c = msg @ '' (while checking arguments for '' @ c @ '')''"

definition check_args :: "CheckedFrom \<Rightarrow> int list \<Rightarrow> nat \<Rightarrow> string \<Rightarrow> error + unit" where
  "check_args c args expected_size arg_name =
     (if \<not> length args \<le> expected_size then
        Inl (InvalidArgument (while_checking
          (''Too many '' @ arg_name @ '' values ('' @ string_of_nat (length args)
             @ '') supplied, expecting '' @ string_of_nat expected_size) c))
      else if \<not> length args \<ge> expected_size then
        Inl (InvalidArgument (while_checking
          (''Not enough '' @ arg_name @ '' values ('' @ string_of_nat (length args)
             @ '') supplied, expecting '' @ string_of_nat expected_size) c))
      else
        let num_negative_values = length (filter (\<lambda>x. int_of_int64 x < 0) args) in
        if num_negative_values > 0 then
          Inl (InvalidArgument (while_checking
            (arg_name @ '' should be greater than zero but got (''
               @ concat (map (\<lambda>x. string_of_int (int_of_int64 x) @ '', '') (butlast args))
               @ string_of_int (last args) @ '')'') c))
        else Inr ())"

text \<open>Sequencing of checks: the first failure is the exception that leaves the function.\<close>

definition bindE :: "error + 'a \<Rightarrow> ('a \<Rightarrow> error + 'b) \<Rightarrow> error + 'b" where
  "bindE r f = (case r of Inl e \<Rightarrow> Inl e | Inr x \<Rightarrow> f x)"

text \<open>
  Modelled from the spec: the printing of a checked argument in a diagnostic
  (\<^verbatim>\<open>operator<<\<close> of \<^verbatim>\<open>ATen/TensorUtils\<close>, not in this file): its name, and its
  position unless that is 0, which marks a result.
\<close>

definition show_arg :: "TensorArg \<Rightarrow> string" where
  "show_arg t =
     (if pos t = 0 then [CHR 0x27] @ name t @ [CHR 0x27]
      else ''argument #'' @ string_of_nat (pos t) @ '' '' @ [CHR 0x27] @ name t @ [CHR 0x27])"

text \<open>
  Modelled from the spec: \<^verbatim>\<open>TensorGeometry::size\<close> (not in this file), the size at a
  dimension; a dimension outside the rank is an error.
\<close>

definition size_at :: "Tensor \<Rightarrow> nat \<Rightarrow> error + int" where
  "size_at t d =
     (if d < dim t then Inr (sizes t ! d)
      else Inl (IndexError (''Dimension out of range (got '' @ string_of_nat d
                 @ '' for a tensor of '' @ string_of_nat (dim t) @ '' dimensions)'')))"

text \<open>
  Modelled from the spec: \<^verbatim>\<open>checkDimRange\<close> (\<^verbatim>\<open>ATen/TensorUtils\<close>, not in this file)
  requires the rank to be in \<open>[dim_start, dim_end)\<close> and fails with InvalidArgument,
  the message naming the call site and the offending rank.
\<close>

definition checkDimRange :: "CheckedFrom \<Rightarrow> TensorArg \<Rightarrow> nat \<Rightarrow> nat \<Rightarrow> error + unit" where
  "checkDimRange c t dim_start dim_end =
     (if dim (tensor t) \<ge> dim_start \<and> dim (tensor t) < dim_end then Inr ()
      else Inl (InvalidArgument (while_checking
             (''Expected '' @ string_of_nat dim_start @ '' to '' @ string_of_nat (dim_end - 1)
              @ '' dimensions, but got '' @ string_of_nat (dim (tensor t))
              @ ''-dimensional tensor for '' @ show_arg t) c)))"

text \<open>
  Modelled from the spec: \<^verbatim>\<open>checkSize\<close> (\<^verbatim>\<open>ATen/TensorUtils\<close>, not in this file)
  requires a given size at a dimension and fails with InvalidArgument, the message
  naming the call site and the offending size.
\<close>

definition checkSize :: "CheckedFrom \<Rightarrow> TensorArg \<Rightarrow> nat \<Rightarrow> int \<Rightarrow> error + unit" where
  "checkSize c t d sz =
     bindE (size_at (tensor t) d) (\<lambda>actual.
       if actual = sz then Inr ()
       else Inl (InvalidArgument (while_checking
              (''Expected tensor to have size '' @ string_of_int sz @ '' at dimension ''
               @ string_of_nat d @ '', but got size '' @ string_of_int actual
               @ '' for '' @ show_arg t) c)))"

text \<open>
  Modelled from the spec: \<^verbatim>\<open>checkSameDim\<close> (\<^verbatim>\<open>ATen/TensorUtils\<close>, not in this file)
  requires two tensors of equal rank and fails with InvalidArgument, the message
  naming the call site and the two ranks.
\<close>

definition checkSameDim :: "CheckedFrom \<Rightarrow> TensorArg \<Rightarrow> TensorArg \<Rightarrow> error + unit" where
  "checkSameDim c t1 t2 =
     (if dim (tensor t1) = dim (tensor t2) then Inr ()
      else Inl (InvalidArgument (while_checking
             (''Expected tensor for '' @ show_arg t1 @ '' to have the same dimension as tensor for ''
              @ show_arg t2 @ ''; but '' @ string_of_nat (dim (tensor t1)) @ '' does not equal ''
              @ string_of_nat (dim (tensor t2))) c)))"

text \<open>
  Modelled from the spec: \<^verbatim>\<open>checkSameType\<close> (\<^verbatim>\<open>ATen/TensorUtils\<close>, not in this file)
  requires two tensors of the same dtype.
\<close>

definition checkSameType :: "CheckedFrom \<Rightarrow> TensorArg \<Rightarrow> TensorArg \<Rightarrow> error + unit" where
  "checkSameType c t1 t2 =
     (if scalar_type (tensor t1) = scalar_type (tensor t2) then Inr ()
      else Inl (InvalidArgument (while_checking
             (''Expected tensor for '' @ show_arg t1 @ '' to have the same type as tensor for ''
              @ show_arg t2) c)))"

text \<open>
  Modelled from the spec: \<^verbatim>\<open>checkSameGPU\<close> (\<^verbatim>\<open>ATen/TensorUtils\<close>, not in this file)
  requires two tensors on the same device, a GPU.
\<close>

definition checkSameGPU :: "CheckedFrom \<Rightarrow> TensorArg \<Rightarrow> TensorArg \<Rightarrow> error + unit" where
  "checkSameGPU c t1 t2 =
     (case (device (tensor t1), device (tensor t2)) of
        (CUDA i, CUDA j) \<Rightarrow>
          if i = j then Inr ()
          else Inl (InvalidArgument (while_checking
                 (''Expected tensor for '' @ show_arg t1 @ '' to have the same device as tensor for ''
                  @ show_arg t2) c))
      | (CPU, _) \<Rightarrow>
          Inl (InvalidArgument (while_checking
                 (''Expected tensor for '' @ show_arg t1 @ '' to be on GPU'') c))
      | (_, CPU) \<Rightarrow>
          Inl (InvalidArgument (while_checking
                 (''Expected tensor for '' @ show_arg t2 @ '' to be on GPU'') c)))"

text \<open>
  Modelled from the spec: \<^verbatim>\<open>checkAllSame\<close> (\<^verbatim>\<open>ATen/TensorUtils\<close>, not in this file)
  holds every tensor of a list against the first one.
\<close>

fun checkAllSame ::
  "(CheckedFrom \<Rightarrow> TensorArg \<Rightarrow> TensorArg \<Rightarrow> error + unit) \<Rightarrow> CheckedFrom \<Rightarrow> TensorArg \<Rightarrow>
     TensorArg list \<Rightarrow> error + unit" where
  "checkAllSame fn c t0 [] = Inr ()"
| "checkAllSame fn c t0 (t # ts) = bindE (fn c t0 t) (\<lambda>_. checkAllSame fn c t0 ts)"

text \<open>
  Modelled from the spec: \<^verbatim>\<open>checkAllSameType\<close> (not in this file), the spec's "verify
  same dtype".
\<close>

definition checkAllSameType :: "CheckedFrom \<Rightarrow> TensorArg list \<Rightarrow> error + unit" where
  "checkAllSameType c tensors =
     (case tensors of [] \<Rightarrow> Inr () | t0 # ts \<Rightarrow> checkAllSame checkSameType c t0 ts)"

text \<open>
  Modelled from the spec: \<^verbatim>\<open>checkAllSameGPU\<close> (not in this file), the spec's "verify
  same device".
\<close>

definition checkAllSameGPU :: "CheckedFrom \<Rightarrow> TensorArg list \<Rightarrow> error + unit" where
  "checkAllSameGPU c tensors =
     (case tensors of [] \<Rightarrow> Inr () | t0 # ts \<Rightarrow> checkAllSame checkSameGPU c t0 ts)"

text \<open>
  The conversion of an \<^verbatim>\<open>int64_t\<close> to \<^verbatim>\<open>size_t\<close> (64 bits, unsigned), which
  \<open>convolution_shape_check\<close> applies to \<^verbatim>\<open>input->dim() - 2\<close>.
\<close>

definition size_t_of_int64 :: "int \<Rightarrow> nat" where
  "size_t_of_int64 x = nat (x mod 18446744073709551616)"

text \<open>
  Modelled from the spec: the constant \<^verbatim>\<open>input_channels_dim\<close> (\<^verbatim>\<open>ConvUtils.h\<close>, not
  in this file): the channel count of an input is its size at dimension 1.
\<close>

definition input_channels_dim :: nat where
  "input_channels_dim = 1"

text \<open>
  \<open>convolution_shape_check\<close>: the three argument lists, the rank of the input, the
  channels of the input against the weight, and the ranks of weight and output
  against the input.  The sizes of the output are not looked at.
\<close>

definition convolution_shape_check ::
  "CheckedFrom \<Rightarrow> TensorArg \<Rightarrow> TensorArg \<Rightarrow> TensorArg \<Rightarrow> int list \<Rightarrow> int list \<Rightarrow> int list \<Rightarrow> int
     \<Rightarrow> error + unit" where
  "convolution_shape_check c input weight output padding stride dilation groups =
     bindE (check_args c padding (size_t_of_int64 (int (dim (tensor input)) - 2)) ''padding'') (\<lambda>_.
     bindE (check_args c stride (length padding) ''stride'') (\<lambda>_.
     bindE (check_args c dilation (length padding) ''dilation'') (\<lambda>_.
     bindE (checkDimRange c input 3 6) (\<lambda>_.
     bindE (size_at (tensor weight) 1) (\<lambda>w1.
     bindE (checkSize c input input_channels_dim (w1 * groups)) (\<lambda>_.
     bindE (checkSameDim c input weight) (\<lambda>_.
     checkSameDim c input output)))))))"

section \<open>Geometry, layout and allocation\<close>

text \<open>
  Modelled from the spec: the forward output size of one spatial dimension, inside
  \<^verbatim>\<open>conv_output_size\<close> (\<^verbatim>\<open>ATen/native/ConvUtils.h\<close>, not in this file):
  \<open>floor((in + 2 pad - dilation (kernel - 1) - 1) / stride) + 1\<close>.
\<close>

definition conv_output_dim :: "int \<Rightarrow> int \<Rightarrow> int \<Rightarrow> int \<Rightarrow> int \<Rightarrow> int" where
  "conv_output_dim inp kernel_size pad strd dil =
     (inp + 2 * pad - dil * (kernel_size - 1) - 1) div strd + 1"

text \<open>
  Modelled from the spec: the input size that a transposed convolution derives for
  one spatial dimension, inside \<^verbatim>\<open>conv_input_size\<close> (\<^verbatim>\<open>ATen/native/ConvUtils.h\<close>, not
  in this file): \<open>(out - 1) stride - 2 pad + dilation (kernel - 1) + output_padding + 1\<close>.
\<close>

definition conv_input_dim :: "int \<Rightarrow> int \<Rightarrow> int \<Rightarrow> int \<Rightarrow> int \<Rightarrow> int \<Rightarrow> int" where
  "conv_input_dim out kernel_size pad output_pad strd dil =
     (out - 1) * strd - 2 * pad + dil * (kernel_size - 1) + output_pad + 1"

text \<open>
  Modelled from the spec: \<^verbatim>\<open>conv_output_size\<close> (\<^verbatim>\<open>ATen/native/ConvUtils.h\<close>, not in
  this file).  Dimension 0 is the batch size of the input, dimension 1 the number
  of output channels of the weight, and each spatial dimension follows the forward
  formula.  The spec gives no size where a list is shorter than the spatial rank or
  a stride is 0: the source would read out of range or divide by zero there, and
  the model stops with \<open>UndefinedBehaviour\<close>.
\<close>

definition conv_output_size ::
  "int list \<Rightarrow> int list \<Rightarrow> int list \<Rightarrow> int list \<Rightarrow> int list \<Rightarrow> error + int list" where
  "conv_output_size input_size weight_size padding stride dilation =
     (let n = length input_size in
      if n < 2 \<or> length weight_size < n \<or> length padding < n - 2 \<or> length stride < n - 2
         \<or> length dilation < n - 2 \<or> 0 \<in> set (take (n - 2) stride)
      then Inl (UndefinedBehaviour ''conv_output_size'')
      else Inr (input_size ! 0 # weight_size ! 0 #
                map (\<lambda>d. conv_output_dim (input_size ! (d + 2)) (weight_size ! (d + 2))
                            (padding ! d) (stride ! d) (dilation ! d)) [0..<n - 2]))"

text \<open>
  Modelled from the spec: \<^verbatim>\<open>conv_input_size\<close> (\<^verbatim>\<open>ATen/native/ConvUtils.h\<close>, not in
  this file).  Dimension 0 is the batch size, dimension 1 the weight's per-group
  input channels times groups, and each spatial dimension follows the transposed
  formula; a list shorter than the spatial rank stops with \<open>UndefinedBehaviour\<close>.
\<close>

definition conv_input_size ::
  "int list \<Rightarrow> int list \<Rightarrow> int list \<Rightarrow> int list \<Rightarrow> int list \<Rightarrow> int list \<Rightarrow> int \<Rightarrow> error + int list" where
  "conv_input_size output_size weight_size padding output_padding stride dilation groups =
     (let n = length output_size in
      if n < 2 \<or> length weight_size < n \<or> length padding < n - 2 \<or> length output_padding < n - 2
         \<or> length stride < n - 2 \<or> length dilation < n - 2
      then Inl (UndefinedBehaviour ''conv_input_size'')
      else Inr (output_size ! 0 # weight_size ! 1 * groups #
                map (\<lambda>d. conv_input_dim (output_size ! (d + 2)) (weight_size ! (d + 2))
                            (padding ! d) (output_padding ! d) (stride ! d) (dilation ! d)) [0..<n - 2]))"

text \<open>
  Modelled from the spec: \<^verbatim>\<open>cudnn_conv_suggest_memory_format\<close> (\<^verbatim>\<open>ConvUtils.h\<close>) is
  not in this file.  Given the layout hints of two operands it answers channels-last
  (rank 4) or channels-last-3d (rank 5) only if both operands favour that layout, and
  contiguous otherwise.
\<close>

definition cudnn_conv_suggest_memory_format :: "Tensor \<Rightarrow> Tensor \<Rightarrow> MemoryFormat" where
  "cudnn_conv_suggest_memory_format input weight =
     (if dim input = 4 \<and> dim weight = 4 \<and> suggest_memory_format input = ChannelsLast
         \<and> suggest_memory_format weight = ChannelsLast then ChannelsLast
      else if dim input = 5 \<and> dim weight = 5 \<and> suggest_memory_format input = ChannelsLast3d
         \<and> suggest_memory_format weight = ChannelsLast3d then ChannelsLast3d
      else Contiguous)"

text \<open>
  Modelled from the spec: the Allocator (not in this file) produces a tensor of the
  given size, dtype, device and layout whose values are not initialised; a negative
  dimension is an InvalidArgument.
\<close>

definition allocate :: "int list \<Rightarrow> ScalarType \<Rightarrow> Device \<Rightarrow> MemoryFormat \<Rightarrow> error + Tensor" where
  "allocate sz dtype dev fmt =
     (if list_ex (\<lambda>n. n < 0) sz
      then Inl (InvalidArgument ''Trying to create tensor with negative dimension'')
      else Inr \<lparr>sizes = sz, scalar_type = dtype, device = dev, memory_format = fmt,
                data = Uninitialized\<rparr>)"

text \<open>
  Modelled from the spec: the filling of a buffer with zeros, as the \<open>zeros\<close>
  variants of the Allocator (not in this file) do.
\<close>

definition zero_fill :: "Tensor \<Rightarrow> Tensor" where
  "zero_fill t = t\<lparr>data := Values (replicate (nat (numel t)) 0)\<rparr>"

text \<open>
  Modelled from the spec: \<^verbatim>\<open>at::native::empty_cuda\<close> (not in this file) with device
  \<^verbatim>\<open>kCUDA\<close>: an allocation on the current CUDA device.
\<close>

definition empty_cuda :: "nat \<Rightarrow> int list \<Rightarrow> ScalarType \<Rightarrow> MemoryFormat \<Rightarrow> error + Tensor" where
  "empty_cuda current_device sz dtype fmt = allocate sz dtype (CUDA current_device) fmt"

text \<open>
  Modelled from the spec: \<^verbatim>\<open>at::empty\<close> (not in this file) with the options (dtype
  and device) of an existing tensor.
\<close>

definition at_empty :: "int list \<Rightarrow> Tensor \<Rightarrow> MemoryFormat \<Rightarrow> error + Tensor" where
  "at_empty sz options fmt = allocate sz (scalar_type options) (device options) fmt"

text \<open>
  Modelled from the spec: \<^verbatim>\<open>at::native::zeros\<close> (not in this file) with the options of
  an existing tensor: an all-zero tensor of the given size.
\<close>

definition zeros :: "int list \<Rightarrow> Tensor \<Rightarrow> error + Tensor" where
  "zeros sz options =
     bindE (allocate sz (scalar_type options) (device options) Contiguous) (\<lambda>t. Inr (zero_fill t))"

text \<open>
  Modelled from the spec: the macro \<^verbatim>\<open>LEGACY_CONTIGUOUS_MEMORY_FORMAT\<close> (not in this
  file), the contiguous layout.
\<close>

definition LEGACY_CONTIGUOUS_MEMORY_FORMAT :: MemoryFormat where
  "LEGACY_CONTIGUOUS_MEMORY_FORMAT = Contiguous"

text \<open>
  Modelled from the spec: \<^verbatim>\<open>at::empty_like\<close> (not in this file): a buffer of the
  shape, dtype and device of an existing tensor, allocated and not initialised.
\<close>

definition empty_like :: "Tensor \<Rightarrow> MemoryFormat \<Rightarrow> Tensor" where
  "empty_like t fmt = t\<lparr>memory_format := fmt, data := Uninitialized\<rparr>"

text \<open>
  Modelled from the spec: \<^verbatim>\<open>at::zeros_like\<close> (not in this file): an all-zero tensor
  of the shape, dtype and device of an existing tensor.
\<close>

definition zeros_like :: "Tensor \<Rightarrow> MemoryFormat \<Rightarrow> Tensor" where
  "zeros_like t fmt = zero_fill (empty_like t fmt)"

text \<open>
  Modelled from the spec: \<^verbatim>\<open>Tensor::contiguous\<close> (not in this file): the same
  values, forced into the requested layout.
\<close>

definition contiguous :: "Tensor \<Rightarrow> MemoryFormat \<Rightarrow> Tensor" where
  "contiguous t fmt = t\<lparr>memory_format := fmt\<rparr>"

section \<open>The raw execution backend\<close>

text \<open>
  A call of a raw primitive, with the arguments in the order of the source: the
  pre-allocated output first, then the operands, the geometry and the flags
  benchmark, deterministic, allow_tf32.  The two fused primitives take the output,
  input, weight, residual z, alpha, bias, then stride, padding, dilation, groups and
  the flags.
\<close>

datatype backend_call =
    raw_cudnn_convolution_forward_out
      Tensor Tensor Tensor "int list" "int list" "int list" int bool bool bool
  | raw_cudnn_convolution_backward_input_out
      Tensor Tensor Tensor "int list" "int list" "int list" int bool bool bool
  | raw_cudnn_convolution_backward_weight_out
      Tensor Tensor Tensor "int list" "int list" "int list" int bool bool bool
  | raw_cudnn_convolution_add_relu_out
      Tensor Tensor Tensor Tensor float_value Tensor "int list" "int list" "int list" int
      bool bool bool
  | raw_cudnn_convolution_add_relu_fallback_out
      Tensor Tensor Tensor Tensor float_value Tensor "int list" "int list" "int list" int
      bool bool bool

text \<open>
  Modelled from the spec: the external collaborators of this layer.  The three
  plain primitives live in \<^verbatim>\<open>Conv_v7.cpp\<close> and \<^verbatim>\<open>Conv_v8.cpp\<close>, not in this file,
  and are left open: \<open>convolution\<close> is whatever the backend answers to a call, a
  BackendError or the element at each index of the output.  \<open>uninitialized_memory\<close>
  is what a read of a buffer that was never written finds: any value, NaN and the
  infinities included.  \<open>relu_nan\<close> is what the activation of the fused primitives
  makes of NaN (NaN where it propagates, 0 where it does not), and \<open>round_to_float\<close>
  the rounding of a number to single precision; the spec fixes neither.
  \<open>AT_CUDNN_CONV_BIAS_RELU_FALLBACK\<close> is the build-time choice between the two fused
  primitives.
\<close>

record Backend =
  current_device :: nat
  convolution :: "backend_call \<Rightarrow> error + (nat \<Rightarrow> float_value)"
  uninitialized_memory :: "nat \<Rightarrow> float_value"
  relu_nan :: float_value
  round_to_float :: "real \<Rightarrow> real"
  AT_CUDNN_CONV_BIAS_RELU_FALLBACK :: bool

text \<open>
  Modelled from the spec: a read of element \<open>i\<close> of a buffer by the backend (not in
  this file); outside what was written it finds uninitialised memory.
\<close>

definition read_at :: "Backend \<Rightarrow> Tensor \<Rightarrow> nat \<Rightarrow> float_value" where
  "read_at B t i =
     (case data t of
        Uninitialized \<Rightarrow> uninitialized_memory B i
      | Values vs \<Rightarrow> if i < length vs then vs ! i else uninitialized_memory B i)"

text \<open>
  Modelled from the spec: the output channel of element \<open>i\<close> of an output of sizes
  batch, channels, spatial sizes; the bias has one value for each output
  channel.
\<close>

definition channel_of :: "Tensor \<Rightarrow> nat \<Rightarrow> nat" where
  "channel_of out i =
     (case sizes out of
        n # ch # spatial \<Rightarrow> (i div nat (prod_list spatial)) mod nat ch
      | _ \<Rightarrow> 0)"

text \<open>
  Modelled from the spec: the activation of the fused primitives (not in this
  file), \<open>relu\<close>: the maximum of 0 and a finite value or an infinity.
\<close>

definition relu :: "Backend \<Rightarrow> float_value \<Rightarrow> float_value" where
  "relu B v =
     (case v of
        Finite a \<Rightarrow> Finite (max 0 a)
      | PosInf \<Rightarrow> PosInf
      | NegInf \<Rightarrow> Finite 0
      | NaN \<Rightarrow> relu_nan B)"

text \<open>
  Modelled from the spec: the fused primitives \<^verbatim>\<open>raw_cudnn_convolution_add_relu_out\<close>
  and \<^verbatim>\<open>raw_cudnn_convolution_add_relu_fallback_out\<close> are not in this file.  The spec
  gives them one contract: they compute \<open>relu(conv(input, weight) + bias + alpha z)\<close>,
  the bias being one value for each output channel, and both produce the same
  results.  The sum and the product are those of the element values, so that a NaN
  or an infinity in \<open>z\<close> makes \<open>alpha z\<close> NaN even when alpha is 0.
\<close>

definition fused_add_relu ::
  "Backend \<Rightarrow> Tensor \<Rightarrow> Tensor \<Rightarrow> Tensor \<Rightarrow> Tensor \<Rightarrow> float_value \<Rightarrow> Tensor
     \<Rightarrow> int list \<Rightarrow> int list \<Rightarrow> int list \<Rightarrow> int \<Rightarrow> bool \<Rightarrow> bool \<Rightarrow> bool
     \<Rightarrow> error + (nat \<Rightarrow> float_value)" where
  "fused_add_relu B output input weight z alpha bias stride padding dilation groups
       benchmark deterministic allow_tf32 =
     bindE (convolution B (raw_cudnn_convolution_forward_out output input weight
                             padding stride dilation groups benchmark deterministic allow_tf32))
       (\<lambda>conv. Inr (\<lambda>i. relu B (fadd (fadd (conv i) (read_at B bias (channel_of output i)))
                                     (fmul alpha (read_at B z i)))))"

text \<open>
  Modelled from the spec: the answer of the backend to a call.  The fused primitives
  follow their contract and, as the spec requires, agree with each other; the plain
  primitives are the open \<open>convolution\<close>.
\<close>

definition run_backend :: "Backend \<Rightarrow> backend_call \<Rightarrow> error + (nat \<Rightarrow> float_value)" where
  "run_backend B call =
     (case call of
        raw_cudnn_convolution_add_relu_out output input weight z alpha bias stride padding dilation
            groups benchmark deterministic allow_tf32 \<Rightarrow>
          fused_add_relu B output input weight z alpha bias stride padding dilation groups
            benchmark deterministic allow_tf32
      | raw_cudnn_convolution_add_relu_fallback_out output input weight z alpha bias stride padding
            dilation groups benchmark deterministic allow_tf32 \<Rightarrow>
          fused_add_relu B output input weight z alpha bias stride padding dilation groups
            benchmark deterministic allow_tf32
      | _ \<Rightarrow> convolution B call)"

text \<open>
  What a dispatcher does: the backend calls it issued, in order, and the exception
  that left it or the value it returned.
\<close>

type_synonym 'a outcome = "backend_call list \<times> (error + 'a)"

definition returnO :: "'a \<Rightarrow> 'a outcome" where
  "returnO x = ([], Inr x)"

definition liftE :: "error + 'a \<Rightarrow> 'a outcome" where
  "liftE r = ([], r)"

definition bindO :: "'a outcome \<Rightarrow> ('a \<Rightarrow> 'b outcome) \<Rightarrow> 'b outcome" where
  "bindO m f =
     (case m of
        (calls, Inl e) \<Rightarrow> (calls, Inl e)
      | (calls, Inr x) \<Rightarrow> (case f x of (calls', r) \<Rightarrow> (calls @ calls', r)))"

text \<open>
  A backend call on a pre-allocated output: the call is issued, and either its
  error propagates or the output buffer holds the backend's elements.
\<close>

definition invoke :: "Backend \<Rightarrow> backend_call \<Rightarrow> Tensor \<Rightarrow> Tensor outcome" where
  "invoke B call output =
     ([call],
      bindE (run_backend B call)
        (\<lambda>elems. Inr (output\<lparr>data := Values (map elems [0..<nat (numel output)])\<rparr>)))"

section \<open>Convolution forward / transposed convolution backward\<close>

definition cudnn_convolution_forward ::
  "Backend \<Rightarrow> CheckedFrom \<Rightarrow> TensorArg \<Rightarrow> TensorArg \<Rightarrow> int list \<Rightarrow> int list \<Rightarrow> int list \<Rightarrow> int
     \<Rightarrow> bool \<Rightarrow> bool \<Rightarrow> bool \<Rightarrow> Tensor outcome" where
  "cudnn_convolution_forward B c input weight padding stride dilation groups
       benchmark deterministic allow_tf32 =
     bindO (liftE (checkAllSameType c [input, weight])) (\<lambda>_.
     bindO (liftE (checkAllSameGPU c [input, weight])) (\<lambda>_.
     let mem_format = cudnn_conv_suggest_memory_format (tensor input) (tensor weight) in
     bindO (liftE (conv_output_size (sizes (tensor input)) (sizes (tensor weight))
                     padding stride dilation)) (\<lambda>output_size.
     bindO (liftE (empty_cuda (current_device B) output_size (scalar_type (tensor input))
                     mem_format)) (\<lambda>output_t.
     if numel output_t = 0 then returnO output_t
     else
       let output = \<lparr>tensor = output_t, name = ''result'', pos = 0\<rparr> in
       bindO (liftE (convolution_shape_check c input weight output padding stride dilation groups)) (\<lambda>_.
       let weight_contig = contiguous (tensor weight) mem_format;
           input_contig = contiguous (tensor input) mem_format
       in invoke B (raw_cudnn_convolution_forward_out (tensor output) input_contig weight_contig
                      padding stride dilation groups benchmark deterministic allow_tf32)
            (tensor output))))))"

definition cudnn_convolution ::
  "Backend \<Rightarrow> Tensor \<Rightarrow> Tensor \<Rightarrow> int list \<Rightarrow> int list \<Rightarrow> int list \<Rightarrow> int
     \<Rightarrow> bool \<Rightarrow> bool \<Rightarrow> bool \<Rightarrow> Tensor outcome" where
  "cudnn_convolution B input_t weight_t padding stride dilation groups
       benchmark deterministic allow_tf32 =
     (let input = \<lparr>tensor = input_t, name = ''input'', pos = 1\<rparr>;
          weight = \<lparr>tensor = weight_t, name = ''weight'', pos = 2\<rparr>;
          c = ''cudnn_convolution''
      in cudnn_convolution_forward B c input weight padding stride dilation groups
           benchmark deterministic allow_tf32)"

definition cudnn_convolution_transpose_backward_input ::
  "Backend \<Rightarrow> Tensor \<Rightarrow> Tensor \<Rightarrow> int list \<Rightarrow> int list \<Rightarrow> int list \<Rightarrow> int
     \<Rightarrow> bool \<Rightarrow> bool \<Rightarrow> bool \<Rightarrow> Tensor outcome" where
  "cudnn_convolution_transpose_backward_input B grad_output_t weight_t padding stride dilation groups
       benchmark deterministic allow_tf32 =
     (let grad_output = \<lparr>tensor = grad_output_t, name = ''grad_output'', pos = 1\<rparr>;
          weight = \<lparr>tensor = weight_t, name = ''weight'', pos = 2\<rparr>
      in cudnn_convolution_forward B ''cudnn_convolution_transpose_backward_input''
           grad_output weight padding stride dilation groups benchmark deterministic allow_tf32)"

section \<open>Convolution backward / transposed convolution forward\<close>

text \<open>
  The source has two overloads of \<open>cudnn_convolution_backward_input\<close> and of
  \<open>cudnn_convolution_backward_weight\<close>; the one that takes the \<open>CheckedFrom\<close> carries
  the suffix \<open>_from\<close> here.
\<close>

definition cudnn_convolution_backward_input_from ::
  "Backend \<Rightarrow> CheckedFrom \<Rightarrow> int list \<Rightarrow> TensorArg \<Rightarrow> TensorArg \<Rightarrow> int list \<Rightarrow> int list \<Rightarrow> int list
     \<Rightarrow> int \<Rightarrow> bool \<Rightarrow> bool \<Rightarrow> bool \<Rightarrow> Tensor outcome" where
  "cudnn_convolution_backward_input_from B c input_size grad_output weight padding stride dilation
       groups benchmark deterministic allow_tf32 =
     bindO (liftE (checkAllSameType c [grad_output, weight])) (\<lambda>_.
     bindO (liftE (checkAllSameGPU c [grad_output, weight])) (\<lambda>_.
     let mem_format = cudnn_conv_suggest_memory_format (tensor grad_output) (tensor weight) in
     bindO (liftE (empty_cuda (current_device B) input_size (scalar_type (tensor grad_output))
                     mem_format)) (\<lambda>grad_input_t.
     let grad_input = \<lparr>tensor = grad_input_t, name = ''result'', pos = 0\<rparr> in
     bindO (liftE (convolution_shape_check c grad_input weight grad_output
                     padding stride dilation groups)) (\<lambda>_.
     let weight_contig = contiguous (tensor weight) mem_format;
         grad_output_contig = contiguous (tensor grad_output) mem_format
     in invoke B (raw_cudnn_convolution_backward_input_out (tensor grad_input) grad_output_contig
                    weight_contig padding stride dilation groups benchmark deterministic allow_tf32)
          (tensor grad_input)))))"

definition cudnn_convolution_transpose_forward ::
  "Backend \<Rightarrow> CheckedFrom \<Rightarrow> TensorArg \<Rightarrow> TensorArg \<Rightarrow> int list \<Rightarrow> int list \<Rightarrow> int list \<Rightarrow> int list
     \<Rightarrow> int \<Rightarrow> bool \<Rightarrow> bool \<Rightarrow> bool \<Rightarrow> Tensor outcome" where
  "cudnn_convolution_transpose_forward B c grad_output weight padding output_padding stride dilation
       groups benchmark deterministic allow_tf32 =
     bindO (liftE (conv_input_size (sizes (tensor grad_output)) (sizes (tensor weight))
                     padding output_padding stride dilation groups)) (\<lambda>input_size.
     cudnn_convolution_backward_input_from B c input_size grad_output weight padding stride dilation
       groups benchmark deterministic allow_tf32)"

definition cudnn_convolution_backward_input ::
  "Backend \<Rightarrow> int list \<Rightarrow> Tensor \<Rightarrow> Tensor \<Rightarrow> int list \<Rightarrow> int list \<Rightarrow> int list
     \<Rightarrow> int \<Rightarrow> bool \<Rightarrow> bool \<Rightarrow> bool \<Rightarrow> Tensor outcome" where
  "cudnn_convolution_backward_input B input_size grad_output_t weight_t padding stride dilation groups
       benchmark deterministic allow_tf32 =
     (let grad_output = \<lparr>tensor = grad_output_t, name = ''grad_output'', pos = 1\<rparr>;
          weight = \<lparr>tensor = weight_t, name = ''weight'', pos = 2\<rparr>
      in cudnn_convolution_backward_input_from B ''cudnn_convolution_backward_input''
           input_size grad_output weight padding stride dilation groups
           benchmark deterministic allow_tf32)"

definition cudnn_convolution_transpose ::
  "Backend \<Rightarrow> Tensor \<Rightarrow> Tensor \<Rightarrow> int list \<Rightarrow> int list \<Rightarrow> int list \<Rightarrow> int list \<Rightarrow> int
     \<Rightarrow> bool \<Rightarrow> bool \<Rightarrow> bool \<Rightarrow> Tensor outcome" where
  "cudnn_convolution_transpose B input_t weight_t padding output_padding stride dilation groups
       benchmark deterministic allow_tf32 =
     (let input = \<lparr>tensor = input_t, name = ''input'', pos = 1\<rparr>;
          weight = \<lparr>tensor = weight_t, name = ''weight'', pos = 2\<rparr>;
          c = ''cudnn_convolution_transpose''
      in cudnn_convolution_transpose_forward B c input weight padding output_padding stride dilation
           groups benchmark deterministic allow_tf32)"

section \<open>Convolution backward (weight)\<close>

definition cudnn_convolution_backward_weight_from ::
  "Backend \<Rightarrow> CheckedFrom \<Rightarrow> int list \<Rightarrow> Tensor \<Rightarrow> Tensor \<Rightarrow> int list \<Rightarrow> int list \<Rightarrow> int list
     \<Rightarrow> int \<Rightarrow> bool \<Rightarrow> bool \<Rightarrow> bool \<Rightarrow> Tensor outcome" where
  "cudnn_convolution_backward_weight_from B c weight_size grad_output_t input_t padding stride dilation
       groups benchmark deterministic allow_tf32 =
     (let layout = cudnn_conv_suggest_memory_format input_t grad_output_t;
          grad_output_contig_t = contiguous grad_output_t layout;
          grad_output_contig = \<lparr>tensor = grad_output_contig_t, name = ''grad_output'', pos = 1\<rparr>;
          input_contig_t = contiguous input_t layout;
          input = \<lparr>tensor = input_contig_t, name = ''input'', pos = 2\<rparr>
      in
      bindO (liftE (checkAllSameType c [grad_output_contig, input])) (\<lambda>_.
      bindO (liftE (checkAllSameGPU c [grad_output_contig, input])) (\<lambda>_.
      bindO (liftE (at_empty weight_size (tensor grad_output_contig) layout)) (\<lambda>grad_weight_t.
      let grad_weight = \<lparr>tensor = grad_weight_t, name = ''result'', pos = 0\<rparr> in
      bindO (liftE (convolution_shape_check c input grad_weight grad_output_contig
                      padding stride dilation groups)) (\<lambda>_.
      invoke B (raw_cudnn_convolution_backward_weight_out (tensor grad_weight)
                  (tensor grad_output_contig) (tensor input)
                  padding stride dilation groups benchmark deterministic allow_tf32)
        grad_weight_t)))))"

definition cudnn_convolution_backward_weight ::
  "Backend \<Rightarrow> int list \<Rightarrow> Tensor \<Rightarrow> Tensor \<Rightarrow> int list \<Rightarrow> int list \<Rightarrow> int list
     \<Rightarrow> int \<Rightarrow> bool \<Rightarrow> bool \<Rightarrow> bool \<Rightarrow> Tensor outcome" where
  "cudnn_convolution_backward_weight B weight_size grad_output_t input_t padding stride dilation groups
       benchmark deterministic allow_tf32 =
     cudnn_convolution_backward_weight_from B ''cudnn_convolution_backward_weight''
       weight_size grad_output_t input_t padding stride dilation groups
       benchmark deterministic allow_tf32"

text \<open>
  The two results of a backward are tensors that stay undefined unless the mask asks
  for them: \<open>None\<close> is the default-constructed \<^verbatim>\<open>Tensor\<close>.
\<close>

definition when_requested :: "bool \<Rightarrow> Tensor outcome \<Rightarrow> Tensor option outcome" where
  "when_requested requested compute =
     (if requested then bindO compute (\<lambda>t. returnO (Some t)) else returnO None)"

definition cudnn_convolution_backward ::
  "Backend \<Rightarrow> Tensor \<Rightarrow> Tensor \<Rightarrow> Tensor \<Rightarrow> int list \<Rightarrow> int list \<Rightarrow> int list \<Rightarrow> int
     \<Rightarrow> bool \<Rightarrow> bool \<Rightarrow> bool \<Rightarrow> bool \<times> bool \<Rightarrow> (Tensor option \<times> Tensor option) outcome" where
  "cudnn_convolution_backward B input grad_output_t weight padding stride dilation groups
       benchmark deterministic allow_tf32 output_mask =
     (let grad_output = contiguous grad_output_t (suggest_memory_format input) in
      if numel input = 0 then
        bindO (when_requested (fst output_mask)
                 (returnO (empty_like input LEGACY_CONTIGUOUS_MEMORY_FORMAT))) (\<lambda>grad_input.
        bindO (when_requested (snd output_mask)
                 (returnO (zeros_like weight LEGACY_CONTIGUOUS_MEMORY_FORMAT))) (\<lambda>grad_weight.
        returnO (grad_input, grad_weight)))
      else
        bindO (when_requested (fst output_mask)
                 (cudnn_convolution_backward_input B (sizes input) grad_output weight
                    padding stride dilation groups benchmark deterministic allow_tf32)) (\<lambda>grad_input.
        bindO (when_requested (snd output_mask)
                 (cudnn_convolution_backward_weight B (sizes weight) grad_output input
                    padding stride dilation groups benchmark deterministic allow_tf32)) (\<lambda>grad_weight.
        returnO (grad_input, grad_weight))))"

definition cudnn_convolution_transpose_backward_weight ::
  "Backend \<Rightarrow> int list \<Rightarrow> Tensor \<Rightarrow> Tensor \<Rightarrow> int list \<Rightarrow> int list \<Rightarrow> int list
     \<Rightarrow> int \<Rightarrow> bool \<Rightarrow> bool \<Rightarrow> bool \<Rightarrow> Tensor outcome" where
  "cudnn_convolution_transpose_backward_weight B weight_size grad_output_t input_t padding stride
       dilation groups benchmark deterministic allow_tf32 =
     cudnn_convolution_backward_weight_from B ''cudnn_convolution_backward_weight''
       weight_size input_t grad_output_t padding stride dilation groups
       benchmark deterministic allow_tf32"

definition cudnn_convolution_transpose_backward ::
  "Backend \<Rightarrow> Tensor \<Rightarrow> Tensor \<Rightarrow> Tensor \<Rightarrow> int list \<Rightarrow> int list \<Rightarrow> int list \<Rightarrow> int list \<Rightarrow> int
     \<Rightarrow> bool \<Rightarrow> bool \<Rightarrow> bool \<Rightarrow> bool \<times> bool \<Rightarrow> (Tensor option \<times> Tensor option) outcome" where
  "cudnn_convolution_transpose_backward B input grad_output_t weight padding output_padding stride
       dilation groups benchmark deterministic allow_tf32 output_mask =
     (let grad_output = contiguous grad_output_t (suggest_memory_format input) in
      bindO (when_requested (fst output_mask)
               (cudnn_convolution_transpose_backward_input B grad_output weight
                  padding stride dilation groups benchmark deterministic allow_tf32)) (\<lambda>grad_input.
      bindO (when_requested (snd output_mask)
               (cudnn_convolution_transpose_backward_weight B (sizes weight) grad_output input
                  padding stride dilation groups benchmark deterministic allow_tf32)) (\<lambda>grad_weight.
      returnO (grad_input, grad_weight))))"

section \<open>Fused convolution, bias and relu\<close>

text \<open>The process-wide policy flags of \<^verbatim>\<open>at::globalContext()\<close>.\<close>

record Context =
  allowTF32CuDNN :: bool
  allowTF32CuBLAS :: bool
  benchmarkCuDNN :: bool
  deterministicCuDNN :: bool

text \<open>
  The fused call: the primitive is chosen at build time; both take the same
  arguments.
\<close>

definition fused_call ::
  "Backend \<Rightarrow> Tensor \<Rightarrow> Tensor \<Rightarrow> Tensor \<Rightarrow> Tensor \<Rightarrow> float_value \<Rightarrow> Tensor
     \<Rightarrow> int list \<Rightarrow> int list \<Rightarrow> int list \<Rightarrow> int \<Rightarrow> bool \<Rightarrow> bool \<Rightarrow> bool \<Rightarrow> backend_call" where
  "fused_call B output input weight z alpha bias stride padding dilation groups
       benchmark deterministic allow_tf32 =
     (if AT_CUDNN_CONV_BIAS_RELU_FALLBACK B then
        raw_cudnn_convolution_add_relu_fallback_out output input weight z alpha bias
          stride padding dilation groups benchmark deterministic allow_tf32
      else
        raw_cudnn_convolution_add_relu_out output input weight z alpha bias
          stride padding dilation groups benchmark deterministic allow_tf32)"

definition cudnn_convolution_relu ::
  "Backend \<Rightarrow> Context \<Rightarrow> Tensor \<Rightarrow> Tensor \<Rightarrow> Tensor option \<Rightarrow> int list \<Rightarrow> int list \<Rightarrow> int list \<Rightarrow> int
     \<Rightarrow> Tensor outcome" where
  "cudnn_convolution_relu B ctx input_t weight_t bias_t stride padding dilation groups =
     (let mem_format = cudnn_conv_suggest_memory_format input_t weight_t;
          input = contiguous input_t mem_format;
          weight = contiguous weight_t mem_format
      in
      bindO (liftE (conv_output_size (sizes input) (sizes weight) padding stride dilation)) (\<lambda>output_size.
      bindO (liftE (empty_cuda (current_device B) output_size (scalar_type input) mem_format)) (\<lambda>output_t.
      if numel output_t = 0 then returnO output_t
      else
        let allow_tf32 = allowTF32CuDNN ctx in
        bindO (case bias_t of
                 Some b \<Rightarrow> returnO b
               | None \<Rightarrow> liftE (bindE (size_at output_t 1) (\<lambda>out_channels.
                           zeros [out_channels] output_t))) (\<lambda>bias.
        invoke B (fused_call B output_t input weight output_t 0 bias stride padding dilation groups
                    False False allow_tf32)
          output_t))))"

text \<open>
  Modelled from the spec: \<^verbatim>\<open>Scalar::to<float>\<close> (\<^verbatim>\<open>c10/core/Scalar.h\<close>, not in this
  file), the narrowing of the optional scalar alpha to single precision.  A finite
  value beyond the largest float is an error; an integer of magnitude at most
  \<open>2 ^ 24\<close> is a float and stays as it is; any other finite value is rounded; an
  infinity or NaN stays as it is.
\<close>

definition FLT_MAX :: real where
  "FLT_MAX = 340282346638528859811704183484516925440"

definition to_float :: "Backend \<Rightarrow> float_value \<Rightarrow> error + float_value" where
  "to_float B v =
     (case v of
        Finite a \<Rightarrow>
          if a < - FLT_MAX \<or> FLT_MAX < a
          then Inl (InvalidArgument ''value cannot be converted to type float without overflow'')
          else if a \<in> \<int> \<and> \<bar>a\<bar> \<le> 16777216 then Inr (Finite a)
          else Inr (Finite (round_to_float B a))
      | _ \<Rightarrow> Inr v)"

definition cudnn_convolution_add_relu ::
  "Backend \<Rightarrow> Context \<Rightarrow> Tensor \<Rightarrow> Tensor \<Rightarrow> Tensor \<Rightarrow> float_value option \<Rightarrow> Tensor option
     \<Rightarrow> int list \<Rightarrow> int list \<Rightarrow> int list \<Rightarrow> int \<Rightarrow> Tensor outcome" where
  "cudnn_convolution_add_relu B ctx input_t weight_t z_t alpha bias_t stride padding dilation groups =
     (let mem_format = cudnn_conv_suggest_memory_format input_t weight_t;
          input = contiguous input_t mem_format;
          weight = contiguous weight_t mem_format
      in
      bindO (liftE (conv_output_size (sizes input) (sizes weight) padding stride dilation)) (\<lambda>output_size.
      bindO (liftE (empty_cuda (current_device B) output_size (scalar_type input) mem_format)) (\<lambda>output_t.
      if numel output_t = 0 then returnO output_t
      else
        let allow_tf32 = allowTF32CuDNN ctx in
        bindO (liftE (case alpha of Some a \<Rightarrow> to_float B a | None \<Rightarrow> Inr 1)) (\<lambda>alpha'.
        bindO (case bias_t of
                 Some b \<Rightarrow> returnO b
               | None \<Rightarrow> liftE (bindE (size_at output_t 1) (\<lambda>out_channels.
                           zeros [out_channels] output_t))) (\<lambda>bias.
        invoke B (fused_call B output_t input weight z_t alpha' bias stride padding dilation groups
                    False False allow_tf32)
          output_t)))))"

section \<open>Observing calls, and concrete instances\<close>

text \<open>The flags benchmark, deterministic and allow_tf32 that a backend call carries.\<close>

fun call_flags :: "backend_call \<Rightarrow> bool \<times> bool \<times> bool" where
  "call_flags (raw_cudnn_convolution_forward_out _ _ _ _ _ _ _ b d t) = (b, d, t)"
| "call_flags (raw_cudnn_convolution_backward_input_out _ _ _ _ _ _ _ b d t) = (b, d, t)"
| "call_flags (raw_cudnn_convolution_backward_weight_out _ _ _ _ _ _ _ b d t) = (b, d, t)"
| "call_flags (raw_cudnn_convolution_add_relu_out _ _ _ _ _ _ _ _ _ _ b d t) = (b, d, t)"
| "call_flags (raw_cudnn_convolution_add_relu_fallback_out _ _ _ _ _ _ _ _ _ _ b d t) = (b, d, t)"

text \<open>
  A backend whose convolutions answer \<open>i + 1\<close> at index \<open>i\<close>, whose unwritten memory
  holds 42, whose activation propagates NaN and whose rounding is exact; float
  tensors of ones
  on device 0, and a context with given flags: the inputs on which the theorems
  below are instantiated.
\<close>

definition example_backend :: Backend where
  "example_backend =
     \<lparr>current_device = 0, convolution = (\<lambda>call. Inr (\<lambda>i. Finite (real i + 1))),
      uninitialized_memory = (\<lambda>i. Finite 42), relu_nan = NaN, round_to_float = (\<lambda>a. a),
      AT_CUDNN_CONV_BIAS_RELU_FALLBACK = False\<rparr>"

definition example_tensor :: "int list \<Rightarrow> Tensor" where
  "example_tensor sz =
     \<lparr>sizes = sz, scalar_type = Float, device = CUDA 0, memory_format = Contiguous,
      data = Values (replicate (nat (prod_list sz)) 1)\<rparr>"

definition example_arg :: "int list \<Rightarrow> string \<Rightarrow> nat \<Rightarrow> TensorArg" where
  "example_arg sz nm p = \<lparr>tensor = example_tensor sz, name = nm, pos = p\<rparr>"

definition example_context :: "bool \<Rightarrow> bool \<Rightarrow> bool \<Rightarrow> Context" where
  "example_context tf32 benchmark deterministic =
     \<lparr>allowTF32CuDNN = tf32, allowTF32CuBLAS = True, benchmarkCuDNN = benchmark,
      deterministicCuDNN = deterministic\<rparr>"

section \<open>Properties of the checks\<close>

lemmas example_defs =
  example_backend_def example_tensor_def example_arg_def example_context_def

lemmas eval_defs =
  conv_output_size_def conv_output_dim_def conv_input_size_def conv_input_dim_def
  cudnn_conv_suggest_memory_format_def suggest_memory_format_def dim_def numel_def
  empty_cuda_def at_empty_def allocate_def zeros_def zero_fill_def size_at_def
  invoke_def fused_call_def Let_def bindE_def

lemma bindE_Inr_iff: "bindE r f = Inr y \<longleftrightarrow> (\<exists>x. r = Inr x \<and> f x = Inr y)"
  by (cases r) (simp_all add: bindE_def)

lemma check_args_ok_iff:
  "check_args c args n arg_name = Inr () \<longleftrightarrow>
     length args = n \<and> (\<forall>x \<in> set args. \<not> int_of_int64 x < 0)"
  by (auto simp: check_args_def Let_def filter_empty_conv)

lemma sublist_while_checking: "sublist c (while_checking msg c)"
proof -
  have "while_checking msg c = (msg @ '' (while checking arguments for '') @ c @ '')''"
    by (simp add: while_checking_def)
  then show ?thesis
    unfolding sublist_def by blast
qed

text \<open>
  Every failure of \<open>check_args\<close> is an InvalidArgument whose message contains the
  call site.
\<close>

lemma check_args_error_names_call_site:
  assumes "check_args c args n arg_name = Inl e"
  shows "\<exists>msg. e = InvalidArgument msg \<and> sublist c msg"
  using assms unfolding check_args_def Let_def
  by (auto split: if_splits simp: sublist_while_checking)

text \<open>
  On entries that fit an \<^verbatim>\<open>int\<close> the narrowing is the identity, and \<open>check_args\<close>
  accepts exactly the lists of the expected length without a negative entry.
\<close>

lemma int_of_int64_id:
  "- 2147483648 \<le> x \<Longrightarrow> x < 2147483648 \<Longrightarrow> int_of_int64 x = x"
  by (simp add: int_of_int64_def)

lemma check_args_ok_iff_int_range:
  assumes "\<forall>x \<in> set args. - 2147483648 \<le> x \<and> x < 2147483648"
  shows "check_args c args n arg_name = Inr () \<longleftrightarrow> length args = n \<and> (\<forall>x \<in> set args. 0 \<le> x)"
  using assms by (auto simp: check_args_ok_iff int_of_int64_id not_less)

text \<open>
  C3.  The claim: \<open>check_args\<close> succeeds exactly when the list has the expected
  length and every entry is non-negative, and any negative entry fails with
  InvalidArgument.  On the code, the one-entry list \<open>[-4294967296]\<close> with expected
  length 1 passes: the counting predicate takes an \<^verbatim>\<open>int\<close>, the entry is narrowed
  to 0, and no negative value is counted.
\<close>

theorem check_args_accepts_negative_entry:
  "check_args ''cudnn_convolution'' [- 4294967296] 1 ''padding'' = Inr ()"
  by (simp add: check_args_def int_of_int64_def)

text \<open>
  In the other direction, the entry 2147483648 is not negative, is narrowed to a
  negative \<^verbatim>\<open>int\<close>, and is rejected.
\<close>

lemma check_args_rejects_nonnegative_entry:
  "\<exists>msg. check_args ''cudnn_convolution'' [2147483648] 1 ''padding'' = Inl (InvalidArgument msg)"
  by (simp add: check_args_def int_of_int64_def)

lemma size_t_of_int64_rank:
  assumes "2 \<le> n" "n < 100"
  shows "size_t_of_int64 (int n - 2) = n - 2"
  using assms by (simp add: size_t_of_int64_def nat_diff_distrib')

lemma convolution_shape_check_ok_iff:
  "convolution_shape_check c input weight output padding stride dilation groups = Inr () \<longleftrightarrow>
     length padding = dim (tensor input) - 2 \<and> length stride = dim (tensor input) - 2
     \<and> length dilation = dim (tensor input) - 2
     \<and> (\<forall>x \<in> set (padding @ stride @ dilation). 0 \<le> int_of_int64 x)
     \<and> 3 \<le> dim (tensor input) \<and> dim (tensor input) \<le> 5
     \<and> sizes (tensor input) ! 1 = sizes (tensor weight) ! 1 * groups
     \<and> dim (tensor weight) = dim (tensor input)
     \<and> dim (tensor output) = dim (tensor input)"
  (is "?L \<longleftrightarrow> ?R")
proof
  assume ?L
  then have 1: "length padding = size_t_of_int64 (int (dim (tensor input)) - 2)"
    and 2: "length stride = length padding" "length dilation = length padding"
    and 3: "\<forall>x \<in> set (padding @ stride @ dilation). 0 \<le> int_of_int64 x"
    and 4: "3 \<le> dim (tensor input)" "dim (tensor input) < 6"
    and 5: "\<exists>w1. size_at (tensor weight) 1 = Inr w1
                \<and> checkSize c input input_channels_dim (w1 * groups) = Inr ()"
    and 6: "dim (tensor input) = dim (tensor weight)" "dim (tensor input) = dim (tensor output)"
    unfolding convolution_shape_check_def
    by (auto simp: bindE_Inr_iff check_args_ok_iff checkDimRange_def checkSameDim_def not_less
        split: if_splits)
  from 4 have "size_t_of_int64 (int (dim (tensor input)) - 2) = dim (tensor input) - 2"
    by (intro size_t_of_int64_rank) auto
  moreover from 5 4 6 have "sizes (tensor input) ! 1 = sizes (tensor weight) ! 1 * groups"
    by (auto simp: checkSize_def size_at_def input_channels_dim_def bindE_Inr_iff split: if_splits)
  ultimately show ?R using 1 2 3 4 6 by simp
next
  assume r: ?R
  then have "size_t_of_int64 (int (dim (tensor input)) - 2) = dim (tensor input) - 2"
    by (intro size_t_of_int64_rank) auto
  with r show ?L
    unfolding convolution_shape_check_def
    by (auto simp: bindE_Inr_iff check_args_ok_iff checkDimRange_def checkSameDim_def not_less
        checkSize_def size_at_def input_channels_dim_def)
qed

lemma convolution_shape_check_output_rank_only:
  assumes "dim (tensor output') = dim (tensor output)"
    and "name output' = name output" and "pos output' = pos output"
  shows "convolution_shape_check c input weight output' padding stride dilation groups
         = convolution_shape_check c input weight output padding stride dilation groups"
  using assms unfolding convolution_shape_check_def checkSameDim_def show_arg_def by simp

text \<open>
  C4, as stated: the check succeeds only when the three lists have length
  rank - 2 of the input, the rank of the input is between 3 and 5, the channels of
  the input are the weight's per-group input channels times groups, and input,
  weight and output have the same rank; and for every output of the right rank the
  check passes when these conditions hold.  The last part fails: with an input of
  sizes \<open>[1, 2, 5]\<close>, a weight of sizes \<open>[3, 2, 3]\<close>, an output of sizes \<open>[1, 3, 3]\<close>,
  stride and dilation 1 and the padding \<open>-1\<close>, all the listed conditions hold and the
  check fails, because \<open>check_args\<close> rejects the negative entry.
\<close>

theorem shape_check_rejects_negative_padding:
  "length [- 1 :: int] = dim (tensor (example_arg [1, 2, 5] ''input'' 1)) - 2
   \<and> length [1 :: int] = dim (tensor (example_arg [1, 2, 5] ''input'' 1)) - 2
   \<and> 3 \<le> dim (tensor (example_arg [1, 2, 5] ''input'' 1))
   \<and> dim (tensor (example_arg [1, 2, 5] ''input'' 1)) \<le> 5
   \<and> sizes (tensor (example_arg [1, 2, 5] ''input'' 1)) ! 1
       = sizes (tensor (example_arg [3, 2, 3] ''weight'' 2)) ! 1 * 1
   \<and> dim (tensor (example_arg [3, 2, 3] ''weight'' 2)) = dim (tensor (example_arg [1, 2, 5] ''input'' 1))
   \<and> dim (tensor (example_arg [1, 3, 3] ''result'' 0)) = dim (tensor (example_arg [1, 2, 5] ''input'' 1))
   \<and> convolution_shape_check ''cudnn_convolution'' (example_arg [1, 2, 5] ''input'' 1)
        (example_arg [3, 2, 3] ''weight'' 2) (example_arg [1, 3, 3] ''result'' 0) [- 1] [1] [1] 1
       \<noteq> Inr ()"
  by (simp add: convolution_shape_check_ok_iff example_defs dim_def int_of_int64_def)

text \<open>
  C4, amended.  \<open>convolution_shape_check\<close> succeeds only when padding, stride and
  dilation have length rank - 2 of the input, the rank of the input is between 3
  and 5, the channels of the input are the weight's per-group input channels times
  groups, and input, weight and output have the same rank.  Nothing is required of
  the sizes of the output: replacing them by any sizes of the same rank leaves the
  outcome of the check unchanged.  For every output of the right rank the check
  passes when these conditions hold and, in addition, no entry of padding, stride
  or dilation is negative (the entries being within the range of a 32-bit
  \<^verbatim>\<open>int\<close>).
\<close>

theorem convolution_shape_check_requirements:
  "(convolution_shape_check c input weight output padding stride dilation groups = Inr () \<longrightarrow>
       length padding = dim (tensor input) - 2 \<and> length stride = dim (tensor input) - 2
       \<and> length dilation = dim (tensor input) - 2
       \<and> 3 \<le> dim (tensor input) \<and> dim (tensor input) \<le> 5
       \<and> sizes (tensor input) ! 1 = sizes (tensor weight) ! 1 * groups
       \<and> dim (tensor weight) = dim (tensor input)
       \<and> dim (tensor output) = dim (tensor input))
   \<and> (\<forall>sz. length sz = dim (tensor output) \<longrightarrow>
         convolution_shape_check c input weight (output\<lparr>tensor := (tensor output)\<lparr>sizes := sz\<rparr>\<rparr>)
           padding stride dilation groups
         = convolution_shape_check c input weight output padding stride dilation groups)
   \<and> (length padding = dim (tensor input) - 2 \<and> length stride = dim (tensor input) - 2
       \<and> length dilation = dim (tensor input) - 2
       \<and> 3 \<le> dim (tensor input) \<and> dim (tensor input) \<le> 5
       \<and> sizes (tensor input) ! 1 = sizes (tensor weight) ! 1 * groups
       \<and> dim (tensor weight) = dim (tensor input)
       \<and> dim (tensor output) = dim (tensor input)
       \<and> (\<forall>x \<in> set (padding @ stride @ dilation). 0 \<le> x \<and> x < 2147483648)
       \<longrightarrow> convolution_shape_check c input weight output padding stride dilation groups = Inr ())"
proof -
  have only_when: "convolution_shape_check c input weight output padding stride dilation groups = Inr () \<longrightarrow>
       length padding = dim (tensor input) - 2 \<and> length stride = dim (tensor input) - 2
       \<and> length dilation = dim (tensor input) - 2
       \<and> 3 \<le> dim (tensor input) \<and> dim (tensor input) \<le> 5
       \<and> sizes (tensor input) ! 1 = sizes (tensor weight) ! 1 * groups
       \<and> dim (tensor weight) = dim (tensor input)
       \<and> dim (tensor output) = dim (tensor input)"
    by (simp add: convolution_shape_check_ok_iff)
  have any_sizes: "\<forall>sz. length sz = dim (tensor output) \<longrightarrow>
         convolution_shape_check c input weight (output\<lparr>tensor := (tensor output)\<lparr>sizes := sz\<rparr>\<rparr>)
           padding stride dilation groups
         = convolution_shape_check c input weight output padding stride dilation groups"
    by (intro allI impI convolution_shape_check_output_rank_only) (simp_all add: dim_def)
  have passes: "length padding = dim (tensor input) - 2 \<and> length stride = dim (tensor input) - 2
       \<and> length dilation = dim (tensor input) - 2
       \<and> 3 \<le> dim (tensor input) \<and> dim (tensor input) \<le> 5
       \<and> sizes (tensor input) ! 1 = sizes (tensor weight) ! 1 * groups
       \<and> dim (tensor weight) = dim (tensor input)
       \<and> dim (tensor output) = dim (tensor input)
       \<and> (\<forall>x \<in> set (padding @ stride @ dilation). 0 \<le> x \<and> x < 2147483648)
       \<longrightarrow> convolution_shape_check c input weight output padding stride dilation groups = Inr ()"
  proof
    assume a: "length padding = dim (tensor input) - 2 \<and> length stride = dim (tensor input) - 2
       \<and> length dilation = dim (tensor input) - 2
       \<and> 3 \<le> dim (tensor input) \<and> dim (tensor input) \<le> 5
       \<and> sizes (tensor input) ! 1 = sizes (tensor weight) ! 1 * groups
       \<and> dim (tensor weight) = dim (tensor input)
       \<and> dim (tensor output) = dim (tensor input)
       \<and> (\<forall>x \<in> set (padding @ stride @ dilation). 0 \<le> x \<and> x < 2147483648)"
    then have r: "\<forall>x \<in> set (padding @ stride @ dilation). 0 \<le> x \<and> x < 2147483648"
      by blast
    have "\<forall>x \<in> set (padding @ stride @ dilation). 0 \<le> int_of_int64 x"
    proof
      fix x assume "x \<in> set (padding @ stride @ dilation)"
      with r have "0 \<le> x" "x < 2147483648" by blast+
      then show "0 \<le> int_of_int64 x" by (simp add: int_of_int64_id)
    qed
    with a show "convolution_shape_check c input weight output padding stride dilation groups = Inr ()"
      by (simp add: convolution_shape_check_ok_iff)
  qed
  from only_when any_sizes passes show ?thesis
    by (intro conjI)
qed

text \<open>
  An instance: a rank-3 input of 2 channels, a weight of 2 input channels, and an
  output whose spatial size 99 is not the one the size formula gives (3); the check
  passes, and passes again with the spatial size replaced by 7.
\<close>

theorem convolution_shape_check_requirements_witness:
  "convolution_shape_check ''cudnn_convolution'' (example_arg [1, 2, 5] ''input'' 1)
       (example_arg [3, 2, 3] ''weight'' 2) (example_arg [1, 3, 99] ''result'' 0) [0] [1] [1] 1 = Inr ()
   \<and> convolution_shape_check ''cudnn_convolution'' (example_arg [1, 2, 5] ''input'' 1)
       (example_arg [3, 2, 3] ''weight'' 2)
       ((example_arg [1, 3, 99] ''result'' 0)
          \<lparr>tensor := (tensor (example_arg [1, 3, 99] ''result'' 0))\<lparr>sizes := [1, 3, 7]\<rparr>\<rparr>)
       [0] [1] [1] 1 = Inr ()"
  using convolution_shape_check_requirements [of "''cudnn_convolution''"
      "example_arg [1, 2, 5] ''input'' 1" "example_arg [3, 2, 3] ''weight'' 2"
      "example_arg [1, 3, 99] ''result'' 0" "[0]" "[1]" "[1]" 1]
  by (simp add: example_defs dim_def)

section \<open>Properties of the dispatchers\<close>

lemma bindO_liftE [simp]:
  "bindO (liftE r) f = (case r of Inl e \<Rightarrow> ([], Inl e) | Inr x \<Rightarrow> f x)"
  by (cases r) (auto simp: bindO_def liftE_def split: prod.splits)

lemma bindO_returnO [simp]: "bindO (returnO x) f = f x"
  by (auto simp: bindO_def returnO_def split: prod.splits)

lemma bindO_Nil_Inr [simp]: "bindO ([], Inr x) f = f x"
  by (auto simp: bindO_def split: prod.splits)

lemma bindO_Nil_Inl [simp]: "bindO ([], Inl e) f = ([], Inl e)"
  by (auto simp: bindO_def split: prod.splits)

lemma bindO_call_Inr [simp]:
  "bindO (calls, Inr x) f = (calls @ fst (f x), snd (f x))"
  by (auto simp: bindO_def split: prod.splits)

lemma when_requested_False [simp]: "when_requested False m = returnO None"
  by (simp add: when_requested_def)

lemma when_requested_True_pure [simp]: "when_requested True ([], Inr t) = ([], Inr (Some t))"
  by (simp add: when_requested_def returnO_def)

lemma when_requested_True_returnO [simp]: "when_requested True (returnO t) = returnO (Some t)"
  by (simp add: when_requested_def)

lemma contiguous_simps [simp]:
  "sizes (contiguous t fmt) = sizes t" "scalar_type (contiguous t fmt) = scalar_type t"
  "device (contiguous t fmt) = device t" "data (contiguous t fmt) = data t"
  "memory_format (contiguous t fmt) = fmt"
  by (simp_all add: contiguous_def)

lemmas dispatch_defs =
  cudnn_convolution_forward_def cudnn_convolution_def
  cudnn_convolution_transpose_backward_input_def
  cudnn_convolution_backward_input_from_def cudnn_convolution_backward_input_def
  cudnn_convolution_transpose_forward_def cudnn_convolution_transpose_def
  cudnn_convolution_backward_weight_from_def cudnn_convolution_backward_weight_def
  cudnn_convolution_transpose_backward_weight_def

lemmas check_defs =
  checkAllSameType_def checkAllSameGPU_def checkSameType_def checkSameGPU_def

text \<open>
  C8.  With the output mask \<open>[false, false]\<close>, \<open>cudnn_convolution_backward\<close> issues
  no backend call and returns the pair of two undefined tensors: neither grad-input
  nor grad-weight is produced, whatever input, grad_output and weight are.
\<close>

theorem backward_mask_false_false:
  "cudnn_convolution_backward B input grad_output_t weight padding stride dilation groups
       benchmark deterministic allow_tf32 (False, False) = ([], Inr (None, None))"
  by (simp add: cudnn_convolution_backward_def Let_def returnO_def)

theorem backward_mask_false_false_witness:
  "cudnn_convolution_backward example_backend (example_tensor [1, 2, 5]) (example_tensor [1, 3, 3])
       (example_tensor [3, 2, 3]) [0] [1] [1] 1 False False False (False, False)
     = ([], Inr (None, None))"
  by (rule backward_mask_false_false)

text \<open>
  C7.  \<open>cudnn_convolution_transpose_backward_weight\<close> returns, for every argument
  tuple, exactly what \<open>cudnn_convolution_backward_weight\<close> returns on the same
  arguments with the input and grad_output tensors interchanged.
\<close>

theorem transpose_backward_weight_is_role_swap:
  "cudnn_convolution_transpose_backward_weight B weight_size grad_output_t input_t padding stride
       dilation groups benchmark deterministic allow_tf32
   = cudnn_convolution_backward_weight B weight_size input_t grad_output_t padding stride
       dilation groups benchmark deterministic allow_tf32"
  by (simp add: cudnn_convolution_transpose_backward_weight_def cudnn_convolution_backward_weight_def)

theorem transpose_backward_weight_is_role_swap_witness:
  "cudnn_convolution_transpose_backward_weight example_backend [2, 3, 3] (example_tensor [1, 3, 5])
       (example_tensor [1, 2, 3]) [0] [1] [1] 1 False False False
   = cudnn_convolution_backward_weight example_backend [2, 3, 3] (example_tensor [1, 2, 3])
       (example_tensor [1, 3, 5]) [0] [1] [1] 1 False False False"
  by (rule transpose_backward_weight_is_role_swap)

text \<open>
  C2.  When the input has zero elements, \<open>cudnn_convolution_backward\<close> makes no
  backend call, for every output mask.  A requested grad-input is a buffer of the
  shape of the input whose values are not initialised; a requested grad-weight is a
  tensor of the shape of the weight that holds zeros only; a result that is not
  requested stays undefined.
\<close>

theorem backward_zero_element_input:
  assumes "numel input = 0"
  shows "cudnn_convolution_backward B input grad_output_t weight padding stride dilation groups
           benchmark deterministic allow_tf32 (want_input, want_weight)
         = ([], Inr (if want_input
                     then Some (input\<lparr>memory_format := Contiguous, data := Uninitialized\<rparr>)
                     else None,
                     if want_weight
                     then Some (weight\<lparr>memory_format := Contiguous,
                                        data := Values (replicate (nat (numel weight)) 0)\<rparr>)
                     else None))"
  using assms
  by (simp add: cudnn_convolution_backward_def Let_def returnO_def empty_like_def zeros_like_def
      zero_fill_def LEGACY_CONTIGUOUS_MEMORY_FORMAT_def numel_def)

theorem backward_zero_element_input_witness:
  "numel (example_tensor [0, 2, 5]) = 0
   \<and> cudnn_convolution_backward example_backend (example_tensor [0, 2, 5]) (example_tensor [0, 3, 3])
       (example_tensor [3, 2, 3]) [0] [1] [1] 1 False False False (True, True)
     = ([], Inr (Some \<lparr>sizes = [0, 2, 5], scalar_type = Float, device = CUDA 0,
                       memory_format = Contiguous, data = Uninitialized\<rparr>,
                 Some \<lparr>sizes = [3, 2, 3], scalar_type = Float, device = CUDA 0,
                       memory_format = Contiguous, data = Values (replicate 18 0)\<rparr>))"
proof -
  have h: "numel (example_tensor [0, 2, 5]) = 0"
    by (simp add: numel_def example_tensor_def)
  show ?thesis
    using h backward_zero_element_input [OF h, of example_backend "example_tensor [0, 3, 3]"
        "example_tensor [3, 2, 3]" "[0]" "[1]" "[1]" 1 False False False True True]
    by (simp add: numel_def example_tensor_def)
qed

text \<open>
  C10.  \<open>cudnn_convolution_transpose_backward\<close> has no special case for an input of
  zero elements: for every mask and every input it is the mask-selected sequence of
  \<open>cudnn_convolution_transpose_backward_input\<close> (the forward dispatcher on
  grad_output and weight) and of \<open>cudnn_convolution_backward_weight\<close> with the roles
  of input and grad_output interchanged; no zeroed grad-weight is put in their place.
\<close>

theorem transpose_backward_dispatches:
  "cudnn_convolution_transpose_backward B input grad_output_t weight padding output_padding stride
       dilation groups benchmark deterministic allow_tf32 output_mask
   = bindO (when_requested (fst output_mask)
              (cudnn_convolution_forward B ''cudnn_convolution_transpose_backward_input''
                 \<lparr>tensor = contiguous grad_output_t (suggest_memory_format input),
                  name = ''grad_output'', pos = 1\<rparr>
                 \<lparr>tensor = weight, name = ''weight'', pos = 2\<rparr>
                 padding stride dilation groups benchmark deterministic allow_tf32)) (\<lambda>grad_input.
     bindO (when_requested (snd output_mask)
              (cudnn_convolution_backward_weight B (sizes weight) input
                 (contiguous grad_output_t (suggest_memory_format input))
                 padding stride dilation groups benchmark deterministic allow_tf32)) (\<lambda>grad_weight.
     returnO (grad_input, grad_weight)))"
  by (simp add: cudnn_convolution_transpose_backward_def
      cudnn_convolution_transpose_backward_weight_def cudnn_convolution_backward_weight_def
      cudnn_convolution_transpose_backward_input_def Let_def)

lemmas shape_defs =
  convolution_shape_check_def check_args_def checkDimRange_def checkSize_def checkSameDim_def
  size_t_of_int64_def input_channels_dim_def int_of_int64_def

text \<open>
  A negative padding that \<open>check_args\<close> lets through reaches the backend:
  \<open>cudnn_convolution_backward_input\<close> allocates the result at the given size, the
  shape check passes, and the backward-input primitive is called with the padding
  \<open>-4294967296\<close>.
\<close>

lemma negative_padding_reaches_backend:
  "fst (cudnn_convolution_backward_input example_backend [1, 1, 3] (example_tensor [1, 1, 3])
          (example_tensor [1, 1, 1]) [- 4294967296] [1] [1] 1 False False False)
   = [raw_cudnn_convolution_backward_input_out
        \<lparr>sizes = [1, 1, 3], scalar_type = Float, device = CUDA 0,
         memory_format = Contiguous, data = Uninitialized\<rparr>
        (example_tensor [1, 1, 3]) (example_tensor [1, 1, 1]) [- 4294967296] [1] [1] 1
        False False False]"
  by (simp add: dispatch_defs check_defs shape_defs example_defs eval_defs contiguous_def)

text \<open>
  An instance with an input of zero elements (batch size 0) and the mask
  \<open>[true, true]\<close>: the transposed backward issues the backward-weight call and
  returns what the backend wrote, where \<open>cudnn_convolution_backward\<close> on the same
  arguments issues no call and returns zeros.
\<close>

theorem transpose_backward_dispatches_witness:
  "numel (example_tensor [0, 1, 1]) = 0
   \<and> cudnn_convolution_transpose_backward example_backend (example_tensor [0, 1, 1])
       (example_tensor [0, 1, 1]) (example_tensor [1, 1, 1]) [0] [0] [1] [1] 1 False False False
       (True, True)
     = ([raw_cudnn_convolution_backward_weight_out
           \<lparr>sizes = [1, 1, 1], scalar_type = Float, device = CUDA 0,
            memory_format = Contiguous, data = Uninitialized\<rparr>
           (example_tensor [0, 1, 1]) (example_tensor [0, 1, 1]) [0] [1] [1] 1 False False False],
        Inr (Some \<lparr>sizes = [0, 1, 1], scalar_type = Float, device = CUDA 0,
                   memory_format = Contiguous, data = Uninitialized\<rparr>,
             Some \<lparr>sizes = [1, 1, 1], scalar_type = Float, device = CUDA 0,
                   memory_format = Contiguous, data = Values [1]\<rparr>))
   \<and> cudnn_convolution_backward example_backend (example_tensor [0, 1, 1])
       (example_tensor [0, 1, 1]) (example_tensor [1, 1, 1]) [0] [1] [1] 1 False False False
       (True, True)
     = ([], Inr (Some \<lparr>sizes = [0, 1, 1], scalar_type = Float, device = CUDA 0,
                       memory_format = Contiguous, data = Uninitialized\<rparr>,
                 Some \<lparr>sizes = [1, 1, 1], scalar_type = Float, device = CUDA 0,
                       memory_format = Contiguous, data = Values [0]\<rparr>))"
  using transpose_backward_dispatches [of example_backend "example_tensor [0, 1, 1]"
      "example_tensor [0, 1, 1]" "example_tensor [1, 1, 1]" "[0]" "[0]" "[1]" "[1]" 1
      False False False "(True, True)"]
  by (simp add: cudnn_convolution_backward_def empty_like_def zeros_like_def
      LEGACY_CONTIGUOUS_MEMORY_FORMAT_def dispatch_defs check_defs shape_defs
      example_defs eval_defs contiguous_def when_requested_def returnO_def run_backend_def
      zero_float_value_def one_float_value_def)

text \<open>
  C9.  In the forward dispatcher and in both fused dispatchers, whenever the output
  that was allocated has zero elements, the dispatcher returns that output at once:
  no backend call is issued, and no shape check stands between the allocation and
  the return (the result does not depend on \<open>convolution_shape_check\<close>).
\<close>

theorem zero_element_output_short_circuit:
  "(checkAllSameType c [input, weight] = Inr () \<and> checkAllSameGPU c [input, weight] = Inr ()
    \<and> conv_output_size (sizes (tensor input)) (sizes (tensor weight)) padding stride dilation
        = Inr output_size
    \<and> empty_cuda (current_device B) output_size (scalar_type (tensor input))
          (cudnn_conv_suggest_memory_format (tensor input) (tensor weight)) = Inr output_t
    \<and> numel output_t = 0
    \<longrightarrow> cudnn_convolution_forward B c input weight padding stride dilation groups
          benchmark deterministic allow_tf = ([], Inr output_t))
   \<and> (conv_output_size (sizes input_t) (sizes weight_t) padding stride dilation = Inr output_size'
    \<and> empty_cuda (current_device B) output_size' (scalar_type input_t)
          (cudnn_conv_suggest_memory_format input_t weight_t) = Inr output_t'
    \<and> numel output_t' = 0
    \<longrightarrow> cudnn_convolution_relu B ctx input_t weight_t bias_t stride padding dilation groups
          = ([], Inr output_t')
      \<and> cudnn_convolution_add_relu B ctx input_t weight_t z_t alpha bias_t stride padding
          dilation groups
          = ([], Inr output_t'))"
  by (simp add: cudnn_convolution_forward_def cudnn_convolution_relu_def
      cudnn_convolution_add_relu_def Let_def returnO_def)

text \<open>
  An instance: batch size 0 and groups = 5, for which the shape check fails (the
  input has 1 channel, the weight asks for 5); the empty output is returned all the
  same.
\<close>

theorem zero_element_output_short_circuit_witness:
  "convolution_shape_check ''cudnn_convolution'' (example_arg [0, 1, 3] ''input'' 1)
       (example_arg [1, 1, 1] ''weight'' 2)
       \<lparr>tensor = \<lparr>sizes = [0, 1, 3], scalar_type = Float, device = CUDA 0,
                   memory_format = Contiguous, data = Uninitialized\<rparr>,
        name = ''result'', pos = 0\<rparr> [0] [1] [1] 5 \<noteq> Inr ()
   \<and> cudnn_convolution_forward example_backend ''cudnn_convolution''
       (example_arg [0, 1, 3] ''input'' 1) (example_arg [1, 1, 1] ''weight'' 2) [0] [1] [1] 5
       False False False
     = ([], Inr \<lparr>sizes = [0, 1, 3], scalar_type = Float, device = CUDA 0,
                 memory_format = Contiguous, data = Uninitialized\<rparr>)
   \<and> cudnn_convolution_relu example_backend (example_context True False False)
       (example_tensor [0, 1, 3]) (example_tensor [1, 1, 1]) None [1] [0] [1] 5
     = ([], Inr \<lparr>sizes = [0, 1, 3], scalar_type = Float, device = CUDA 0,
                 memory_format = Contiguous, data = Uninitialized\<rparr>)
   \<and> cudnn_convolution_add_relu example_backend (example_context True False False)
       (example_tensor [0, 1, 3]) (example_tensor [1, 1, 1]) (example_tensor [0, 1, 3]) None None
       [1] [0] [1] 5
     = ([], Inr \<lparr>sizes = [0, 1, 3], scalar_type = Float, device = CUDA 0,
                 memory_format = Contiguous, data = Uninitialized\<rparr>)"
proof -
  let ?out = "\<lparr>sizes = [0, 1, 3], scalar_type = Float, device = CUDA 0,
               memory_format = Contiguous, data = Uninitialized\<rparr>"
  have shape: "convolution_shape_check ''cudnn_convolution'' (example_arg [0, 1, 3] ''input'' 1)
       (example_arg [1, 1, 1] ''weight'' 2) \<lparr>tensor = ?out, name = ''result'', pos = 0\<rparr>
       [0] [1] [1] 5 \<noteq> Inr ()"
    by (simp add: convolution_shape_check_ok_iff example_defs)
  have h1: "checkAllSameType ''cudnn_convolution''
              [example_arg [0, 1, 3] ''input'' 1, example_arg [1, 1, 1] ''weight'' 2] = Inr ()"
    and h2: "checkAllSameGPU ''cudnn_convolution''
              [example_arg [0, 1, 3] ''input'' 1, example_arg [1, 1, 1] ''weight'' 2] = Inr ()"
    by (simp_all add: check_defs example_defs bindE_def)
  have h3: "conv_output_size [0, 1, 3] [1, 1, 1] [0] [1] [1] = Inr [0, 1, 3]"
    by (simp add: conv_output_size_def conv_output_dim_def)
  have h4: "empty_cuda 0 [0, 1, 3] Float Contiguous = Inr ?out"
    by (simp add: empty_cuda_def allocate_def)
  have h5: "numel ?out = 0"
    by (simp add: numel_def)
  have fmt: "cudnn_conv_suggest_memory_format (example_tensor [0, 1, 3]) (example_tensor [1, 1, 1])
               = Contiguous"
    by (simp add: cudnn_conv_suggest_memory_format_def suggest_memory_format_def example_defs)
  show ?thesis
    using shape h1 h2 h3 h4 h5 fmt
      zero_element_output_short_circuit [where c = "''cudnn_convolution''"
        and input = "example_arg [0, 1, 3] ''input'' 1"
        and weight = "example_arg [1, 1, 1] ''weight'' 2"
        and padding = "[0]" and stride = "[1]" and dilation = "[1]"
        and output_size = "[0, 1, 3]" and B = example_backend and output_t = ?out
        and groups = 5 and benchmark = False and deterministic = False and allow_tf = False
        and input_t = "example_tensor [0, 1, 3]" and weight_t = "example_tensor [1, 1, 1]"
        and output_size' = "[0, 1, 3]" and output_t' = ?out
        and ctx = "example_context True False False" and bias_t = None
        and z_t = "example_tensor [0, 1, 3]" and alpha = None]
    by (simp add: example_defs)
qed

section \<open>The fused dispatchers\<close>

lemma bindO_bias [simp]:
  "bindO (case bias_t of Some b \<Rightarrow> returnO b | None \<Rightarrow> liftE r) f
   = (case (case bias_t of Some b \<Rightarrow> Inr b | None \<Rightarrow> r) of
        Inl e \<Rightarrow> ([], Inl e) | Inr x \<Rightarrow> f x)"
  by (cases bias_t) simp_all

lemma fadd_zero_right [simp]: "fadd v 0 = v"
  by (cases v) (simp_all add: zero_float_value_def)








lemma to_float_zero [simp]: "to_float B 0 = Inr 0"
  by (simp add: to_float_def zero_float_value_def FLT_MAX_def)








lemma fused_call_flags:
  "fst (invoke B (fused_call B out inp w z a bias stride padding dilation groups b d t) buf)
   = [fused_call B out inp w z a bias stride padding dilation groups b d t]"
  "call_flags (fused_call B out inp w z a bias stride padding dilation groups b d t) = (b, d, t)"
  by (simp_all add: invoke_def fused_call_def)

lemma relu_flags:
  "call \<in> set (fst (cudnn_convolution_relu B ctx input_t weight_t bias_t stride padding dilation groups))
   \<Longrightarrow> call_flags call = (False, False, allowTF32CuDNN ctx)"
  unfolding cudnn_convolution_relu_def Let_def
  by (auto simp: fused_call_flags returnO_def split: sum.splits if_splits)

lemma add_relu_flags:
  "call \<in> set (fst (cudnn_convolution_add_relu B ctx input_t weight_t z_t alpha bias_t
                     stride padding dilation groups))
   \<Longrightarrow> call_flags call = (False, False, allowTF32CuDNN ctx)"
  unfolding cudnn_convolution_add_relu_def Let_def
  by (auto simp: fused_call_flags returnO_def split: sum.splits if_splits)

text \<open>
  C6, as stated: changing the global deterministic/benchmark mode between two
  otherwise identical calls of a fused dispatcher changes the flags passed to the
  backend primitive.  It does not: with the global benchmark and deterministic modes
  both off and both on, each fused dispatcher issues one backend call, and its flags
  are benchmark = false, deterministic = false, allow_tf32 = true both times.
\<close>

theorem fused_flags_ignore_global_mode:
  "map call_flags (fst (cudnn_convolution_relu example_backend (example_context True False False)
             (example_tensor [1, 1, 3]) (example_tensor [1, 1, 2]) None [1] [0] [1] 1))
     = [(False, False, True)]
   \<and> map call_flags (fst (cudnn_convolution_relu example_backend (example_context True True True)
             (example_tensor [1, 1, 3]) (example_tensor [1, 1, 2]) None [1] [0] [1] 1))
     = [(False, False, True)]
   \<and> map call_flags (fst (cudnn_convolution_add_relu example_backend
             (example_context True False False) (example_tensor [1, 1, 3])
             (example_tensor [1, 1, 2]) (example_tensor [1, 1, 2]) None None [1] [0] [1] 1))
     = [(False, False, True)]
   \<and> map call_flags (fst (cudnn_convolution_add_relu example_backend
             (example_context True True True) (example_tensor [1, 1, 3])
             (example_tensor [1, 1, 2]) (example_tensor [1, 1, 2]) None None [1] [0] [1] 1))
     = [(False, False, True)]"
  by (simp add: cudnn_convolution_relu_def cudnn_convolution_add_relu_def example_defs eval_defs)

text \<open>
  C6, amended.  Each fused dispatcher is a function of its arguments, the backend
  and one process-wide policy flag, the global allow-tf32 of cuDNN, read at call
  time: two contexts that agree on that flag give the same calls and the same
  outcome, whatever their benchmark and deterministic modes are.  Every backend call
  a fused dispatcher issues carries benchmark = false, deterministic = false and the
  global allow-tf32 as its allow_tf32 flag.
\<close>

theorem fused_depends_on_allow_tf32_only:
  "(allowTF32CuDNN ctx = allowTF32CuDNN ctx' \<longrightarrow>
      cudnn_convolution_relu B ctx input_t weight_t bias_t stride padding dilation groups
      = cudnn_convolution_relu B ctx' input_t weight_t bias_t stride padding dilation groups
    \<and> cudnn_convolution_add_relu B ctx input_t weight_t z_t alpha bias_t stride padding dilation groups
      = cudnn_convolution_add_relu B ctx' input_t weight_t z_t alpha bias_t stride padding dilation
          groups)
   \<and> (\<forall>call \<in> set (fst (cudnn_convolution_relu B ctx input_t weight_t bias_t
                             stride padding dilation groups))
               \<union> set (fst (cudnn_convolution_add_relu B ctx input_t weight_t z_t alpha bias_t
                               stride padding dilation groups)).
         call_flags call = (False, False, allowTF32CuDNN ctx))"
proof (intro conjI impI ballI)
  assume eq: "allowTF32CuDNN ctx = allowTF32CuDNN ctx'"
  show "cudnn_convolution_relu B ctx input_t weight_t bias_t stride padding dilation groups
      = cudnn_convolution_relu B ctx' input_t weight_t bias_t stride padding dilation groups"
    unfolding cudnn_convolution_relu_def eq ..
  show "cudnn_convolution_add_relu B ctx input_t weight_t z_t alpha bias_t stride padding dilation groups
      = cudnn_convolution_add_relu B ctx' input_t weight_t z_t alpha bias_t stride padding dilation
          groups"
    unfolding cudnn_convolution_add_relu_def eq ..
next
  fix call
  assume "call \<in> set (fst (cudnn_convolution_relu B ctx input_t weight_t bias_t
                             stride padding dilation groups))
               \<union> set (fst (cudnn_convolution_add_relu B ctx input_t weight_t z_t alpha bias_t
                               stride padding dilation groups))"
  then show "call_flags call = (False, False, allowTF32CuDNN ctx)"
    by (auto dest: relu_flags add_relu_flags)
qed

text \<open>
  An instance: the contexts with benchmark and deterministic off and on agree on
  allow-tf32, so the two calls of \<open>cudnn_convolution_relu\<close> coincide; with allow-tf32
  off the call carries allow_tf32 = false.
\<close>

theorem fused_depends_on_allow_tf32_only_witness:
  "allowTF32CuDNN (example_context True False False) = allowTF32CuDNN (example_context True True True)
   \<and> cudnn_convolution_relu example_backend (example_context True False False)
        (example_tensor [1, 1, 3]) (example_tensor [1, 1, 2]) None [1] [0] [1] 1
     = cudnn_convolution_relu example_backend (example_context True True True)
        (example_tensor [1, 1, 3]) (example_tensor [1, 1, 2]) None [1] [0] [1] 1
   \<and> map call_flags (fst (cudnn_convolution_relu example_backend (example_context False True True)
        (example_tensor [1, 1, 3]) (example_tensor [1, 1, 2]) None [1] [0] [1] 1))
     = [(False, False, False)]"
proof -
  have h: "allowTF32CuDNN (example_context True False False)
           = allowTF32CuDNN (example_context True True True)"
    by (simp add: example_context_def)
  have flags: "map call_flags (fst (cudnn_convolution_relu example_backend
        (example_context False True True)
        (example_tensor [1, 1, 3]) (example_tensor [1, 1, 2]) None [1] [0] [1] 1))
     = [(False, False, False)]"
    by (simp add: cudnn_convolution_relu_def example_defs eval_defs)
  show ?thesis
    using h flags
      fused_depends_on_allow_tf32_only [of "example_context True False False"
        "example_context True True True" example_backend "example_tensor [1, 1, 3]"
        "example_tensor [1, 1, 2]" None "[1]" "[0]" "[1]" 1 "example_tensor [1, 1, 2]" None]
    by simp
qed

section \<open>The size formulas\<close>

text \<open>
  C1, as stated: for in at least the effective extent of the kernel, stride \<ge> 1,
  pad \<ge> 0 and dilation \<ge> 1, the forward size formula followed by the transposed
  size formula with output_padding = 0 gives back in.  It does not at in = 6,
  kernel = 3, stride = 2, pad = 0, dilation = 1: the forward size is 2 and the
  transposed formula gives 5.
\<close>

theorem transpose_size_roundtrip_counterexample:
  "1 * (3 - 1) + 1 \<le> (6::int) \<and> (1::int) \<le> 2 \<and> (0::int) \<le> 0 \<and> (1::int) \<le> 1
   \<and> conv_output_dim 6 3 0 2 1 = 2
   \<and> conv_input_dim (conv_output_dim 6 3 0 2 1) 3 0 0 2 1 = 5
   \<and> conv_input_dim (conv_output_dim 6 3 0 2 1) 3 0 0 2 1 \<noteq> 6
   \<and> conv_output_size [1, 1, 6] [1, 1, 3] [0] [2] [1] = Inr [1, 1, 2]
   \<and> conv_input_size [1, 1, 2] [1, 1, 3] [0] [0] [2] [1] 1 = Inr [1, 1, 5]"
  by (simp add: conv_input_dim_def conv_output_dim_def conv_output_size_def conv_input_size_def)

text \<open>
  C1, amended.  Under the same conditions the composition gives
  \<open>in - ((in + 2 pad - dilation (kernel - 1) - 1) mod stride)\<close>: it gives back in
  exactly when the stride divides \<open>in + 2 pad - dilation (kernel - 1) - 1\<close>, and
  otherwise falls short of in by less than the stride.
\<close>

theorem transpose_size_roundtrip:
  assumes "dil * (k - 1) + 1 \<le> inp" and "1 \<le> strd" and "0 \<le> pad" and "1 \<le> dil"
  shows "conv_input_dim (conv_output_dim inp k pad strd dil) k pad 0 strd dil
           = inp - (inp + 2 * pad - dil * (k - 1) - 1) mod strd
         \<and> (conv_input_dim (conv_output_dim inp k pad strd dil) k pad 0 strd dil = inp
              \<longleftrightarrow> strd dvd (inp + 2 * pad - dil * (k - 1) - 1))
         \<and> inp - strd < conv_input_dim (conv_output_dim inp k pad strd dil) k pad 0 strd dil
         \<and> conv_input_dim (conv_output_dim inp k pad strd dil) k pad 0 strd dil \<le> inp"
proof -
  define a where "a = inp + 2 * pad - dil * (k - 1) - 1"
  have "a div strd * strd = a - a mod strd"
    by (simp add: minus_mod_eq_div_mult)
  then have 1: "conv_input_dim (conv_output_dim inp k pad strd dil) k pad 0 strd dil = inp - a mod strd"
    unfolding conv_input_dim_def conv_output_dim_def a_def [symmetric]
    by (simp add: a_def algebra_simps)
  have 2: "0 \<le> a mod strd" "a mod strd < strd"
    using assms(2) by simp_all
  have 3: "inp - a mod strd = inp \<longleftrightarrow> strd dvd a"
    by (simp add: dvd_eq_mod_eq_0)
  show ?thesis
    using 1 2 3 unfolding a_def by simp
qed

theorem transpose_size_roundtrip_witness:
  "1 * (3 - 1) + 1 \<le> (7::int) \<and> (1::int) \<le> 2 \<and> (0::int) \<le> 0 \<and> (1::int) \<le> 1
   \<and> conv_input_dim (conv_output_dim 7 3 0 2 1) 3 0 0 2 1 = 7
   \<and> (2::int) dvd 7 + 2 * 0 - 1 * (3 - 1) - 1"
proof -
  have h: "1 * (3 - 1) + 1 \<le> (7::int)" "(1::int) \<le> 2" "(0::int) \<le> 0" "(1::int) \<le> 1"
    by simp_all
  show ?thesis
    using h transpose_size_roundtrip [OF h] by simp
qed

end
